theory Spec2Isabelle
  imports Main
begin

section \<open>Data model\<close>

text \<open>
  Identifiers are the string primary keys (\<open>_id\<close>) of the persistence layer.
  The requesting user is either the anonymous user or a registered user
  (\<open>request.user\<close>, tested with \<open>user.is_anonymous\<close>).
\<close>

type_synonym ident = string

datatype user = AnonymousUser | User ident

fun is_anonymous :: "user \<Rightarrow> bool" where
  "is_anonymous AnonymousUser = True"
| "is_anonymous (User u) = False"

text \<open>
  The exceptions raised by the views (\<open>rest_framework.exceptions\<close>) and the two
  model-layer exceptions the views catch (\<open>ValueError\<close>, \<open>NodeStateError\<close>).
  \<open>PermissionDenied\<close> is the HTTP 403 outcome.
\<close>

datatype error =
    NotFound
  | PermissionDenied
  | NotAuthenticated
  | ValidationError
  | ValueError
  | NodeStateError

text \<open>
  A row of the node table. Collections, projects/components and registrations share
  it and are told apart by the \<open>type\<close> column (\<open>'osf.collection'\<close>,
  \<open>'osf.registration'\<close>, ...); \<open>is_collection\<close> is the model property read by
  \<open>CollectionMixin.get_node\<close>.
\<close>

record node =
  node_id :: ident
  node_type :: string
  is_collection :: bool
  is_deleted :: bool
  is_public :: bool
  creator :: ident
  date_modified :: nat

text \<open>
  A \<open>NodeRelation\<close> row: the edge from a parent (the collection) to a child
  (the target), both foreign keys into the node table.
\<close>

record node_relation =
  rel_id :: ident
  parent :: ident
  child :: ident

record database =
  nodes :: "ident \<rightharpoonup> node"
  node_relations :: "node_relation list"

text \<open>The permission levels of \<open>website.util.permissions\<close>.\<close>

datatype permission = READ | WRITE | ADMIN


section \<open>CollectionMixin.get_node\<close>

text \<open>
  \<open>get_object_or_error\<close> (of \<open>api.base.utils\<close>) and the view's
  \<open>check_object_permissions\<close> are collaborators of the method and are taken as
  parameters: the first returns the object or raises, the second returns the exception
  it raises, if any. The second component of the result records, in order, the objects
  on which \<open>check_object_permissions\<close> was invoked.
\<close>

definition get_node ::
  "(ident \<Rightarrow> error + node) \<Rightarrow> (node \<Rightarrow> error option) \<Rightarrow> bool \<Rightarrow> ident
     \<Rightarrow> (error + node) \<times> node list" where
  "get_node get_object_or_error check_object_permissions check_perms collection_id =
     (case get_object_or_error collection_id of
        Inl e \<Rightarrow> (Inl e, [])
      | Inr n \<Rightarrow>
          if \<not> is_collection n then (Inl NotFound, [])
          else if check_perms then
            (case check_object_permissions n of
               Some e \<Rightarrow> (Inl e, [n])
             | None \<Rightarrow> (Inr n, [n]))
          else (Inr n, []))"


section \<open>CollectionList\<close>

subsection \<open>Queries\<close>

text \<open>
  The fragment of the query language (\<open>modularodm.Q\<close>) the view builds: a
  comparison of a named field with a value, and conjunction (\<open>&\<close>).
\<close>

datatype qvalue = VBool bool | VUser user

datatype qop = Eq | Ne

datatype query = Q string qop qvalue | QAnd query query

fun field_value :: "node \<Rightarrow> string \<Rightarrow> qvalue option" where
  "field_value c f =
     (if f = ''is_deleted'' then Some (VBool (is_deleted c))
      else if f = ''is_public'' then Some (VBool (is_public c))
      else if f = ''creator'' then Some (VUser (User (creator c)))
      else None)"

fun matches :: "query \<Rightarrow> node \<Rightarrow> bool" where
  "matches (Q f Eq v) c = (field_value c f = Some v)"
| "matches (Q f Ne v) c = (field_value c f \<noteq> Some v)"
| "matches (QAnd q1 q2) c = (matches q1 c \<and> matches q2 c)"

text \<open>\<open>Collection.find(query)\<close> over the rows of the collection table.\<close>

definition Collection_find :: "query \<Rightarrow> node list \<Rightarrow> node list" where
  "Collection_find q table = filter (matches q) table"

definition get_default_odm_query :: "user \<Rightarrow> query" where
  "get_default_odm_query usr =
     (let base_query = Q ''is_deleted'' Ne (VBool True);
          permission_query =
            (if \<not> is_anonymous usr then Q ''creator'' Eq (VUser usr)
             else Q ''is_public'' Eq (VBool True));
          query = QAnd base_query permission_query
      in query)"


subsection \<open>Bulk delete\<close>

text \<open>
  \<open>node.has_permission(user, ADMIN)\<close> is a method of the model layer and is taken as
  a parameter. The loop returns at the first resource without admin permission.
\<close>

fun allow_bulk_destroy_resources ::
  "(node \<Rightarrow> user \<Rightarrow> permission \<Rightarrow> bool) \<Rightarrow> user \<Rightarrow> node list \<Rightarrow> bool" where
  "allow_bulk_destroy_resources has_permission usr [] = True"
| "allow_bulk_destroy_resources has_permission usr (n # resource_list) =
     (if \<not> has_permission n usr ADMIN then False
      else allow_bulk_destroy_resources has_permission usr resource_list)"

text \<open>\<open>instance.save()\<close>: the row of the instance is written back.\<close>

definition save :: "node \<Rightarrow> database \<Rightarrow> database" where
  "save n db = db\<lparr>nodes := (nodes db)(node_id n \<mapsto> n)\<rparr>"

text \<open>
  \<open>CollectionList.perform_destroy\<close>. \<open>instance.remove_node(auth=auth)\<close> is a method
  of the model layer, taken as a parameter: it raises or returns the updated instance
  and database. Only \<open>NodeStateError\<close> is translated to \<open>ValidationError\<close>.
\<close>

definition CollectionList_perform_destroy ::
  "(node \<Rightarrow> database \<Rightarrow> error + node \<times> database) \<Rightarrow> node \<Rightarrow> database
     \<Rightarrow> error + database" where
  "CollectionList_perform_destroy remove_node instance db =
     (case remove_node instance db of
        Inl e \<Rightarrow> (if e = NodeStateError then Inl ValidationError else Inl e)
      | Inr (instance', db') \<Rightarrow> Inr (save instance' db'))"

text \<open>
  Modelled from the spec: the loop of the bulk-delete handler of
  \<open>BulkDestroyJSONAPIView\<close> (\<open>api.base.generic_bulk_views\<close>) over the requested
  resources, calling \<open>perform_destroy\<close> on each; the first exception ends it.
\<close>

fun perform_bulk_destroy ::
  "(node \<Rightarrow> database \<Rightarrow> error + node \<times> database) \<Rightarrow> node list \<Rightarrow> database
     \<Rightarrow> error + database" where
  "perform_bulk_destroy remove_node [] db = Inr db"
| "perform_bulk_destroy remove_node (n # resource_list) db =
     (case CollectionList_perform_destroy remove_node n db of
        Inl e \<Rightarrow> Inl e
      | Inr db' \<Rightarrow> perform_bulk_destroy remove_node resource_list db')"

text \<open>
  Modelled from the spec: the bulk-delete handler of \<open>BulkDestroyJSONAPIView\<close>
  (\<open>api.base.generic_bulk_views\<close>), which calls \<open>allow_bulk_destroy_resources\<close> and
  \<open>perform_destroy\<close>. Bulk delete answers 204, requires admin permission per item and
  is Forbidden (403) when admin permission is lacking; a request is one transaction,
  fully committed or fully rolled back.
\<close>

definition bulk_destroy ::
  "(node \<Rightarrow> user \<Rightarrow> permission \<Rightarrow> bool) \<Rightarrow> (node \<Rightarrow> database \<Rightarrow> error + node \<times> database)
     \<Rightarrow> user \<Rightarrow> node list \<Rightarrow> database \<Rightarrow> (error + nat) \<times> database" where
  "bulk_destroy has_permission remove_node usr resource_list db =
     (if \<not> allow_bulk_destroy_resources has_permission usr resource_list
      then (Inl PermissionDenied, db)
      else (case perform_bulk_destroy remove_node resource_list db of
              Inl e \<Rightarrow> (Inl e, db)
            | Inr db' \<Rightarrow> (Inr 204, db')))"


section \<open>Linked-node and linked-registration lists\<close>

text \<open>
  Both views narrow the queryset of \<open>BaseLinkedList.get_queryset\<close> (the parameter
  \<open>base\<close>) on the \<open>type\<close> column: \<open>exclude(type='osf.registration')\<close> and
  \<open>filter(type='osf.registration')\<close>.
\<close>

definition LinkedNodesList_get_queryset :: "node list \<Rightarrow> node list" where
  "LinkedNodesList_get_queryset base =
     filter (\<lambda>n. \<not> (node_type n = ''osf.registration'')) base"

definition LinkedRegistrationsList_get_queryset :: "node list \<Rightarrow> node list" where
  "LinkedRegistrationsList_get_queryset base =
     filter (\<lambda>n. node_type n = ''osf.registration'') base"


section \<open>Legacy node links\<close>

text \<open>
  \<open>node.node_relations\<close> is the reverse relation of the \<open>parent\<close> foreign key. The
  lookups \<open>child__is_deleted\<close> and \<open>child__type\<close> join the child row; a relation
  whose child row is missing satisfies no condition on the child.
\<close>

definition node_relations_of :: "node \<Rightarrow> database \<Rightarrow> node_relation list" where
  "node_relations_of n db = filter (\<lambda>r. parent r = node_id n) (node_relations db)"

definition child_is :: "database \<Rightarrow> (node \<Rightarrow> bool) \<Rightarrow> node_relation \<Rightarrow> bool" where
  "child_is db P r = (case nodes db (child r) of None \<Rightarrow> False | Some c \<Rightarrow> P c)"

definition NodeLinksList_get_queryset ::
  "(ident \<Rightarrow> error + node) \<Rightarrow> (node \<Rightarrow> error option) \<Rightarrow> ident \<Rightarrow> database
     \<Rightarrow> error + node_relation list" where
  "NodeLinksList_get_queryset get_object_or_error check_object_permissions collection_id db =
     (case fst (get_node get_object_or_error check_object_permissions True collection_id) of
        Inl e \<Rightarrow> Inl e
      | Inr n \<Rightarrow>
          Inr (filter (\<lambda>r. \<not> child_is db (\<lambda>c. node_type c = ''osf.collection'') r)
                (filter (child_is db (\<lambda>c. is_deleted c = False))
                  (node_relations_of n db))))"

text \<open>
  \<open>NodeLinksDetail.get_object\<close>: the node link is looked up by id
  (\<open>get_object_or_error(NodeRelation, ...)\<close>, a parameter), then the object-permission
  check runs on it.
\<close>

definition NodeLinksDetail_get_object ::
  "(ident \<Rightarrow> error + node_relation) \<Rightarrow> (node_relation \<Rightarrow> error option) \<Rightarrow> ident
     \<Rightarrow> error + node_relation" where
  "NodeLinksDetail_get_object get_link_or_error check_link_permissions node_link_id =
     (case get_link_or_error node_link_id of
        Inl e \<Rightarrow> Inl e
      | Inr node_link \<Rightarrow>
          (case check_link_permissions node_link of
             Some e \<Rightarrow> Inl e
           | None \<Rightarrow> Inr node_link))"

text \<open>
  Modelled from the spec: \<open>rm_pointer\<close>, a method of the node model (\<open>osf.models\<close>).
  Removing a link that does not belong to the collection (wrong parent) is a
  link/parent mismatch, which the model raises as \<open>ValueError\<close> (the view's comment:
  pointer doesn't belong to node); otherwise the NodeLink is destroyed.
\<close>

definition rm_pointer :: "node \<Rightarrow> node_relation \<Rightarrow> database \<Rightarrow> error + database" where
  "rm_pointer n pointer db =
     (if pointer \<notin> set (node_relations_of n db) then Inl ValueError
      else Inr (db\<lparr>node_relations :=
                   filter (\<lambda>r. rel_id r \<noteq> rel_id pointer) (node_relations db)\<rparr>))"

text \<open>
  \<open>NodeLinksDetail.perform_destroy\<close>: the collection of the URL, then the node link of
  the URL, then \<open>rm_pointer\<close> with \<open>ValueError\<close> translated to \<open>ValidationError\<close>, then
  \<open>node.save()\<close>.
\<close>

definition NodeLinksDetail_perform_destroy ::
  "(ident \<Rightarrow> error + node) \<Rightarrow> (node \<Rightarrow> error option)
     \<Rightarrow> (ident \<Rightarrow> error + node_relation) \<Rightarrow> (node_relation \<Rightarrow> error option)
     \<Rightarrow> ident \<Rightarrow> ident \<Rightarrow> database \<Rightarrow> (error + unit) \<times> database" where
  "NodeLinksDetail_perform_destroy get_object_or_error check_object_permissions
       get_link_or_error check_link_permissions collection_id node_link_id db =
     (case fst (get_node get_object_or_error check_object_permissions True collection_id) of
        Inl e \<Rightarrow> (Inl e, db)
      | Inr n \<Rightarrow>
          (case NodeLinksDetail_get_object get_link_or_error check_link_permissions
                  node_link_id of
             Inl e \<Rightarrow> (Inl e, db)
           | Inr pointer \<Rightarrow>
               (case rm_pointer n pointer db of
                  Inl e \<Rightarrow> (if e = ValueError then (Inl ValidationError, db) else (Inl e, db))
                | Inr db' \<Rightarrow> (Inr (), save n db'))))"


section \<open>Set Reconciler\<close>

text \<open>
  Modelled from the spec: the relationship views \<open>LinkedNodesRelationship\<close> and
  \<open>LinkedRegistrationsRelationship\<close> (\<open>api.base.views\<close>) and their serializers, which
  \<open>CollectionLinkedNodesRelationship\<close> and \<open>CollectionLinkedRegistrationsRelationship\<close>
  inherit without overriding anything. The definitions of this section follow the
  spec's Set Reconciler step by step.
\<close>

text \<open>
  Modelled from the spec: the endpoint variant fixes the target subtype, a tagged
  variant (plain node or registration).
\<close>

datatype subtype = NodePlain | NodeRegistration

text \<open>
  Modelled from the spec: the request mode of the reconciler is create-only (POST),
  replace (PUT/PATCH) or remove (DELETE).
\<close>

datatype mode = CreateOnly | Replace | Remove

text \<open>
  Modelled from the spec: the Authorization Gate decides read and edit eligibility of a
  principal on an object; it is an external collaborator.
\<close>

record authorization_gate =
  can_read :: "user \<Rightarrow> node \<Rightarrow> bool"
  can_edit :: "user \<Rightarrow> node \<Rightarrow> bool"

text \<open>
  Modelled from the spec: the Link Store holds the facts "this collection links this
  target", keyed by (collection, target); \<open>entities\<close> resolves identifiers.
\<close>

record store =
  entities :: "ident \<rightharpoonup> node"
  links :: "(ident \<times> ident) list"

text \<open>
  Modelled from the spec: the two subtypes are disjoint and distinguished by the type
  tag; a collection is never linkable as a target.
\<close>

fun has_subtype :: "subtype \<Rightarrow> node \<Rightarrow> bool" where
  "has_subtype NodeRegistration t = (node_type t = ''osf.registration'')"
| "has_subtype NodePlain t =
     (node_type t \<noteq> ''osf.registration'' \<and> node_type t \<noteq> ''osf.collection'')"

text \<open>
  Modelled from the spec: an identifier resolves when it names a live (not
  soft-deleted) entity of the expected subtype.
\<close>

definition resolve :: "subtype \<Rightarrow> store \<Rightarrow> ident \<Rightarrow> node option" where
  "resolve st s x =
     (case entities s x of
        None \<Rightarrow> None
      | Some t \<Rightarrow> if \<not> is_deleted t \<and> has_subtype st t then Some t else None)"

text \<open>
  Modelled from the spec: step 1 of the reconciler, the identifiers presently linked
  from the collection, without the targets that are soft-deleted or of the other
  subtype.
\<close>

definition current_ids :: "subtype \<Rightarrow> store \<Rightarrow> node \<Rightarrow> ident list" where
  "current_ids st s c =
     map snd (filter (\<lambda>l. fst l = node_id c \<and> resolve st s (snd l) \<noteq> None) (links s))"

text \<open>
  Modelled from the spec: step 2 of the reconciler, the additions per mode
  (\<open>requested_ids - current_ids\<close>, none in remove mode), in the order of
  \<open>requested_ids\<close>.
\<close>

fun to_add :: "mode \<Rightarrow> ident list \<Rightarrow> ident list \<Rightarrow> ident list" where
  "to_add CreateOnly requested_ids cur = filter (\<lambda>x. x \<notin> set cur) requested_ids"
| "to_add Replace requested_ids cur = filter (\<lambda>x. x \<notin> set cur) requested_ids"
| "to_add Remove requested_ids cur = []"

text \<open>
  Modelled from the spec: step 2 of the reconciler, the removals per mode (none in
  create-only mode, \<open>current_ids - requested_ids\<close> in replace mode,
  \<open>requested_ids \<inter> current_ids\<close> in remove mode).
\<close>

fun to_remove :: "mode \<Rightarrow> ident list \<Rightarrow> ident list \<Rightarrow> ident list" where
  "to_remove CreateOnly requested_ids cur = []"
| "to_remove Replace requested_ids cur = filter (\<lambda>x. x \<notin> set requested_ids) cur"
| "to_remove Remove requested_ids cur = filter (\<lambda>x. x \<in> set requested_ids) cur"

text \<open>
  Modelled from the spec: step 3 of the reconciler for one identifier, the
  existence/type check (\<open>NotFound\<close>) before the read-permission check (Forbidden).
\<close>

definition validate_addition ::
  "authorization_gate \<Rightarrow> user \<Rightarrow> subtype \<Rightarrow> store \<Rightarrow> ident \<Rightarrow> error option" where
  "validate_addition gate requester st s x =
     (case resolve st s x of
        None \<Rightarrow> Some NotFound
      | Some t \<Rightarrow> if \<not> can_read gate requester t then Some PermissionDenied else None)"

text \<open>
  Modelled from the spec: step 3 of the reconciler over the additions, per item in
  order; the first violation found is the outcome.
\<close>

fun validate_additions ::
  "authorization_gate \<Rightarrow> user \<Rightarrow> subtype \<Rightarrow> store \<Rightarrow> ident list \<Rightarrow> error option" where
  "validate_additions gate requester st s [] = None"
| "validate_additions gate requester st s (x # xs) =
     (case validate_addition gate requester st s x of
        Some e \<Rightarrow> Some e
      | None \<Rightarrow> validate_additions gate requester st s xs)"

text \<open>
  Modelled from the spec: step 4 of the reconciler, one NodeLink per added identifier,
  none created when one already exists (the store's uniqueness constraint).
\<close>

definition create_link :: "ident \<Rightarrow> (ident \<times> ident) list \<Rightarrow> ident \<Rightarrow> (ident \<times> ident) list" where
  "create_link cid ls x = (if (cid, x) \<in> set ls then ls else ls @ [(cid, x)])"

text \<open>
  Modelled from the spec: step 5 of the reconciler, the NodeLink of the identifier is
  destroyed; an identifier already absent is a no-op, never an error.
\<close>

definition destroy_link :: "ident \<Rightarrow> (ident \<times> ident) list \<Rightarrow> ident \<Rightarrow> (ident \<times> ident) list" where
  "destroy_link cid ls x = filter (\<lambda>l. l \<noteq> (cid, x)) ls"

text \<open>
  Modelled from the spec: the relationship operations answer 201 (POST), 200
  (PUT/PATCH) and 204 (DELETE), as the docstring of
  \<open>CollectionLinkedNodesRelationship\<close> also says (Success: 201, 200, 204).
\<close>

fun success_status :: "mode \<Rightarrow> nat" where
  "success_status CreateOnly = 201"
| "success_status Replace = 200"
| "success_status Remove = 204"

text \<open>
  Modelled from the spec: the reconciliation. Edit permission on the collection is
  checked once up front; all additions are validated before any mutation; then the
  links are created and destroyed, the collection is persisted with a new modification
  timestamp (\<open>now\<close>) whether or not anything was added or removed, and the resulting
  current set is returned.
\<close>

definition reconcile ::
  "authorization_gate \<Rightarrow> user \<Rightarrow> subtype \<Rightarrow> mode \<Rightarrow> nat \<Rightarrow> node \<Rightarrow> ident list \<Rightarrow> store
     \<Rightarrow> (error + nat \<times> ident list) \<times> store" where
  "reconcile gate requester st m now c requested_ids s =
     (if \<not> can_edit gate requester c then (Inl PermissionDenied, s)
      else
        let cur = current_ids st s c;
            add = to_add m requested_ids cur;
            rem = to_remove m requested_ids cur
        in (case validate_additions gate requester st s add of
              Some e \<Rightarrow> (Inl e, s)
            | None \<Rightarrow>
                let ls1 = foldl (create_link (node_id c)) (links s) add;
                    ls2 = foldl (destroy_link (node_id c)) ls1 rem;
                    s' = s\<lparr>entities := (entities s)(node_id c \<mapsto> c\<lparr>date_modified := now\<rparr>),
                           links := ls2\<rparr>
                in (Inr (success_status m, current_ids st s' c), s')))"


section \<open>Example data\<close>

text \<open>
  A small database used to evaluate the definitions on concrete inputs: three
  collections (one private, one public and of another user, one soft-deleted), two
  public projects, a registration, a soft-deleted project and a private project of
  another user; four node links.
\<close>

definition example_collection :: node where
  "example_collection =
     \<lparr>node_id = ''c1'', node_type = ''osf.collection'', is_collection = True,
      is_deleted = False, is_public = False, creator = ''u1'', date_modified = 0\<rparr>"

definition example_other_collection :: node where
  "example_other_collection =
     \<lparr>node_id = ''c2'', node_type = ''osf.collection'', is_collection = True,
      is_deleted = False, is_public = True, creator = ''u2'', date_modified = 0\<rparr>"

definition example_deleted_collection :: node where
  "example_deleted_collection =
     \<lparr>node_id = ''c3'', node_type = ''osf.collection'', is_collection = True,
      is_deleted = True, is_public = True, creator = ''u1'', date_modified = 0\<rparr>"

definition example_project :: node where
  "example_project =
     \<lparr>node_id = ''A'', node_type = ''osf.node'', is_collection = False,
      is_deleted = False, is_public = True, creator = ''u1'', date_modified = 0\<rparr>"

definition example_second_project :: node where
  "example_second_project =
     \<lparr>node_id = ''B'', node_type = ''osf.node'', is_collection = False,
      is_deleted = False, is_public = True, creator = ''u1'', date_modified = 0\<rparr>"

definition example_registration :: node where
  "example_registration =
     \<lparr>node_id = ''R'', node_type = ''osf.registration'', is_collection = False,
      is_deleted = False, is_public = True, creator = ''u1'', date_modified = 0\<rparr>"

definition example_deleted_project :: node where
  "example_deleted_project =
     \<lparr>node_id = ''D'', node_type = ''osf.node'', is_collection = False,
      is_deleted = True, is_public = True, creator = ''u1'', date_modified = 0\<rparr>"

definition example_private_project :: node where
  "example_private_project =
     \<lparr>node_id = ''P'', node_type = ''osf.node'', is_collection = False,
      is_deleted = False, is_public = False, creator = ''u2'', date_modified = 0\<rparr>"

definition example_nodes :: "ident \<rightharpoonup> node" where
  "example_nodes =
     [''c1'' \<mapsto> example_collection, ''c2'' \<mapsto> example_other_collection,
      ''A'' \<mapsto> example_project, ''B'' \<mapsto> example_second_project,
      ''R'' \<mapsto> example_registration, ''D'' \<mapsto> example_deleted_project,
      ''P'' \<mapsto> example_private_project]"

definition example_link :: "ident \<Rightarrow> ident \<Rightarrow> ident \<Rightarrow> node_relation" where
  "example_link l p c = \<lparr>rel_id = l, parent = p, child = c\<rparr>"

definition example_database :: database where
  "example_database =
     \<lparr>nodes = example_nodes,
      node_relations =
        [example_link ''l1'' ''c1'' ''A'', example_link ''l2'' ''c1'' ''D'',
         example_link ''l3'' ''c1'' ''c2'', example_link ''l4'' ''c2'' ''B'']\<rparr>"

definition example_get_object_or_error :: "ident \<Rightarrow> error + node" where
  "example_get_object_or_error i =
     (case example_nodes i of None \<Rightarrow> Inl NotFound | Some n \<Rightarrow> Inr n)"

definition example_get_link_or_error :: "ident \<Rightarrow> error + node_relation" where
  "example_get_link_or_error i =
     (case filter (\<lambda>r. rel_id r = i) (node_relations example_database) of
        [] \<Rightarrow> Inl NotFound
      | r # _ \<Rightarrow> Inr r)"

definition example_has_permission :: "node \<Rightarrow> user \<Rightarrow> permission \<Rightarrow> bool" where
  "example_has_permission n usr p = (usr = User (creator n))"

definition example_remove_node :: "node \<Rightarrow> database \<Rightarrow> error + node \<times> database" where
  "example_remove_node n db =
     Inr (n\<lparr>is_deleted := True\<rparr>,
          db\<lparr>node_relations := filter (\<lambda>r. parent r \<noteq> node_id n) (node_relations db)\<rparr>)"


text \<open>
  For the Set Reconciler: a gate that lets a user edit what the user created and read
  what is public or the user's own, and three link stores over the same entities.
\<close>

definition example_gate :: authorization_gate where
  "example_gate =
     \<lparr>can_read = (\<lambda>usr t. is_public t \<or> usr = User (creator t)),
      can_edit = (\<lambda>usr c. usr = User (creator c))\<rparr>"

definition example_store :: store where
  "example_store = \<lparr>entities = example_nodes, links = [(''c1'', ''A'')]\<rparr>"

definition example_full_store :: store where
  "example_full_store =
     \<lparr>entities = example_nodes, links = [(''c1'', ''A''), (''c1'', ''B'')]\<rparr>"

definition example_mixed_store :: store where
  "example_mixed_store =
     \<lparr>entities = example_nodes, links = [(''c1'', ''A''), (''c1'', ''R'')]\<rparr>"


section \<open>Properties\<close>

subsection \<open>Collection lookup\<close>

text \<open>
  C7. When the identifier resolves to an entity that is not a collection,
  \<open>get_node\<close> raises \<open>NotFound\<close> whatever the permission check would answer, and the
  permission check is not invoked. Whenever the permission check is invoked at all, the
  lookup has succeeded and has returned a collection, and it is that collection which is
  checked.
\<close>

theorem get_node_type_check_before_permissions:
  "(get_object_or_error cid = Inr n \<and> \<not> is_collection n \<longrightarrow>
      get_node get_object_or_error check_object_permissions check_perms cid
        = (Inl NotFound, []))
   \<and> (snd (get_node get_object_or_error check_object_permissions check_perms cid) \<noteq> [] \<longrightarrow>
        (\<exists>c. get_object_or_error cid = Inr c \<and> is_collection c \<and> check_perms
           \<and> snd (get_node get_object_or_error check_object_permissions check_perms cid) = [c]))"
  by (auto simp: get_node_def split: sum.splits option.splits if_splits)

theorem get_node_type_check_before_permissions_witness:
  "example_get_object_or_error ''A'' = Inr example_project
   \<and> \<not> is_collection example_project
   \<and> get_node example_get_object_or_error (\<lambda>n. Some PermissionDenied) True ''A''
       = (Inl NotFound, [])
   \<and> get_node example_get_object_or_error (\<lambda>n. Some PermissionDenied) True ''c1''
       = (Inl PermissionDenied, [example_collection])"
  using get_node_type_check_before_permissions
          [where get_object_or_error = example_get_object_or_error and cid = "''A''"
             and n = example_project and check_object_permissions = "\<lambda>n. Some PermissionDenied"
             and check_perms = True]
        get_node_type_check_before_permissions
          [where get_object_or_error = example_get_object_or_error and cid = "''c1''"
             and check_object_permissions = "\<lambda>n. Some PermissionDenied"
             and check_perms = True]
  by (simp add: get_node_def example_get_object_or_error_def example_nodes_def
        example_project_def example_collection_def)


subsection \<open>Collection list\<close>

text \<open>
  C10. A collection is in the listing obtained from the default query exactly when it
  is in the table, is not soft-deleted, and was created by the requesting user if the
  user is authenticated, or is public if the user is anonymous. So an anonymous user
  sees neither a private nor a deleted collection.
\<close>

theorem default_query_listing:
  "c \<in> set (Collection_find (get_default_odm_query usr) table) \<longleftrightarrow>
     c \<in> set table \<and> \<not> is_deleted c
     \<and> (if is_anonymous usr then is_public c else User (creator c) = usr)"
  by (cases usr) (auto simp: Collection_find_def get_default_odm_query_def)

theorem default_query_listing_witness:
  "Collection_find (get_default_odm_query AnonymousUser)
     [example_collection, example_other_collection, example_deleted_collection]
     = [example_other_collection]
   \<and> Collection_find (get_default_odm_query (User ''u1''))
     [example_collection, example_other_collection, example_deleted_collection]
     = [example_collection]"
  using default_query_listing
          [of example_other_collection AnonymousUser
              "[example_collection, example_other_collection, example_deleted_collection]"]
  by (simp add: Collection_find_def get_default_odm_query_def example_collection_def
        example_other_collection_def example_deleted_collection_def)

lemma allow_bulk_destroy_resources_iff:
  "allow_bulk_destroy_resources has_permission usr resource_list \<longleftrightarrow>
     (\<forall>n\<in>set resource_list. has_permission n usr ADMIN)"
  by (induction resource_list) auto

text \<open>
  C9. \<open>allow_bulk_destroy_resources\<close> answers True exactly when the user has admin
  permission on every resource of the list. When a single resource lacks it, the bulk
  delete is refused with \<open>PermissionDenied\<close> (403, Forbidden) and the database is left
  as it was, so that no collection of the list is deleted.
\<close>

theorem bulk_destroy_requires_admin_on_every_item:
  "(allow_bulk_destroy_resources has_permission usr resource_list \<longleftrightarrow>
      (\<forall>n\<in>set resource_list. has_permission n usr ADMIN))
   \<and> ((\<exists>n\<in>set resource_list. \<not> has_permission n usr ADMIN) \<longrightarrow>
        bulk_destroy has_permission remove_node usr resource_list db
          = (Inl PermissionDenied, db))"
  by (simp add: allow_bulk_destroy_resources_iff bulk_destroy_def)

theorem bulk_destroy_requires_admin_on_every_item_witness:
  "example_has_permission example_collection (User ''u1'') ADMIN
   \<and> \<not> example_has_permission example_other_collection (User ''u1'') ADMIN
   \<and> \<not> allow_bulk_destroy_resources example_has_permission (User ''u1'')
         [example_collection, example_other_collection]
   \<and> bulk_destroy example_has_permission example_remove_node (User ''u1'')
         [example_collection, example_other_collection] example_database
       = (Inl PermissionDenied, example_database)
   \<and> allow_bulk_destroy_resources example_has_permission (User ''u1'') [example_collection]"
  using bulk_destroy_requires_admin_on_every_item
          [of example_has_permission "User ''u1''"
              "[example_collection, example_other_collection]" example_remove_node
              example_database]
        bulk_destroy_requires_admin_on_every_item
          [of example_has_permission "User ''u1''" "[example_collection]" example_remove_node
              example_database]
  by (simp add: example_has_permission_def example_collection_def
        example_other_collection_def)


subsection \<open>Scoped lists\<close>

text \<open>
  C2. The linked-nodes list returns only targets whose type is not registration, the
  linked-registrations list only targets whose type is registration; no target is in
  both lists, and every target of the underlying queryset is in one of them.
\<close>

theorem linked_lists_scoped_by_type:
  "(\<forall>n\<in>set (LinkedNodesList_get_queryset base). node_type n \<noteq> ''osf.registration'')
   \<and> (\<forall>n\<in>set (LinkedRegistrationsList_get_queryset base).
         node_type n = ''osf.registration'')
   \<and> set (LinkedNodesList_get_queryset base)
       \<inter> set (LinkedRegistrationsList_get_queryset base) = {}
   \<and> set (LinkedNodesList_get_queryset base)
       \<union> set (LinkedRegistrationsList_get_queryset base) = set base"
  by (auto simp: LinkedNodesList_get_queryset_def LinkedRegistrationsList_get_queryset_def)

theorem linked_lists_scoped_by_type_witness:
  "LinkedNodesList_get_queryset [example_project, example_registration, example_second_project]
     = [example_project, example_second_project]
   \<and> LinkedRegistrationsList_get_queryset
       [example_project, example_registration, example_second_project]
     = [example_registration]
   \<and> node_type example_project \<noteq> ''osf.registration''
   \<and> node_type example_second_project \<noteq> ''osf.registration''
   \<and> node_type example_registration = ''osf.registration''"
  using linked_lists_scoped_by_type
          [of "[example_project, example_registration, example_second_project]"]
  by (simp add: LinkedNodesList_get_queryset_def LinkedRegistrationsList_get_queryset_def
        example_project_def example_registration_def example_second_project_def)


subsection \<open>Legacy node links\<close>

text \<open>
  C8. Every link returned by the legacy node-links list has a target that exists, is
  not soft-deleted and is not of type collection.
\<close>

theorem node_links_list_targets_live_and_not_collections:
  assumes "NodeLinksList_get_queryset get_object_or_error check_object_permissions cid db
             = Inr rels"
  shows "\<forall>r\<in>set rels. \<exists>c. nodes db (child r) = Some c \<and> \<not> is_deleted c
            \<and> node_type c \<noteq> ''osf.collection''"
  using assms
  by (auto simp: NodeLinksList_get_queryset_def child_is_def split: sum.splits option.splits)

theorem node_links_list_targets_live_and_not_collections_witness:
  "NodeLinksList_get_queryset example_get_object_or_error (\<lambda>n. None) ''c1'' example_database
     = Inr [example_link ''l1'' ''c1'' ''A'']
   \<and> nodes example_database (child (example_link ''l1'' ''c1'' ''A'')) = Some example_project
   \<and> \<not> is_deleted example_project
   \<and> node_type example_project \<noteq> ''osf.collection''"
proof -
  have q: "NodeLinksList_get_queryset example_get_object_or_error (\<lambda>n. None) ''c1''
             example_database = Inr [example_link ''l1'' ''c1'' ''A'']"
    by (simp add: NodeLinksList_get_queryset_def get_node_def example_get_object_or_error_def
          example_nodes_def example_database_def node_relations_of_def child_is_def
          example_link_def example_collection_def example_other_collection_def
          example_project_def example_deleted_project_def)
  show ?thesis
    using q node_links_list_targets_live_and_not_collections [OF q]
    by (simp add: example_database_def example_nodes_def example_link_def
          example_project_def)
qed

lemma rm_pointer_wrong_parent:
  "parent pointer \<noteq> node_id n \<Longrightarrow> rm_pointer n pointer db = Inl ValueError"
  by (simp add: rm_pointer_def node_relations_of_def)

text \<open>
  C6. When the collection of the URL and the node link of the URL both resolve and pass
  their permission checks, and the link's parent is another collection, the DELETE
  raises \<open>ValidationError\<close> and the database is unchanged: the link is not removed.
\<close>

theorem node_link_delete_wrong_parent:
  assumes "fst (get_node get_object_or_error check_object_permissions True cid) = Inr n"
    and "NodeLinksDetail_get_object get_link_or_error check_link_permissions lid
           = Inr pointer"
    and "parent pointer \<noteq> node_id n"
  shows "NodeLinksDetail_perform_destroy get_object_or_error check_object_permissions
           get_link_or_error check_link_permissions cid lid db = (Inl ValidationError, db)"
  using assms by (simp add: NodeLinksDetail_perform_destroy_def rm_pointer_wrong_parent)

theorem node_link_delete_wrong_parent_witness:
  "fst (get_node example_get_object_or_error (\<lambda>n. None) True ''c1'') = Inr example_collection
   \<and> NodeLinksDetail_get_object example_get_link_or_error (\<lambda>l. None) ''l4''
       = Inr (example_link ''l4'' ''c2'' ''B'')
   \<and> parent (example_link ''l4'' ''c2'' ''B'') \<noteq> node_id example_collection
   \<and> NodeLinksDetail_perform_destroy example_get_object_or_error (\<lambda>n. None)
         example_get_link_or_error (\<lambda>l. None) ''c1'' ''l4'' example_database
       = (Inl ValidationError, example_database)
   \<and> example_link ''l4'' ''c2'' ''B'' \<in> set (node_relations example_database)"
proof -
  have n: "fst (get_node example_get_object_or_error (\<lambda>n. None) True ''c1'')
             = Inr example_collection"
    by (simp add: get_node_def example_get_object_or_error_def example_nodes_def
          example_collection_def)
  have l: "NodeLinksDetail_get_object example_get_link_or_error (\<lambda>l. None) ''l4''
             = Inr (example_link ''l4'' ''c2'' ''B'')"
    by (simp add: NodeLinksDetail_get_object_def example_get_link_or_error_def
          example_database_def example_link_def)
  have p: "parent (example_link ''l4'' ''c2'' ''B'') \<noteq> node_id example_collection"
    by (simp add: example_link_def example_collection_def)
  have m: "example_link ''l4'' ''c2'' ''B'' \<in> set (node_relations example_database)"
    by (simp add: example_database_def)
  show ?thesis
    using n l p m node_link_delete_wrong_parent [OF n l p, of example_database]
    by simp
qed


subsection \<open>Set Reconciler\<close>

lemma resolve_touch:
  assumes "entities s (node_id c) = Some c"
  shows "(resolve st (s\<lparr>entities := (entities s)(node_id c \<mapsto> c\<lparr>date_modified := now\<rparr>),
                        links := ls\<rparr>) x = None) = (resolve st s x = None)"
  using assms by (cases st) (auto simp: resolve_def split: option.splits)

lemma current_ids_touch:
  assumes "entities s (node_id c) = Some c"
  shows "current_ids st (s\<lparr>entities := (entities s)(node_id c \<mapsto> c\<lparr>date_modified := now\<rparr>),
                           links := ls\<rparr>) c
         = map snd (filter (\<lambda>l. fst l = node_id c \<and> resolve st s (snd l) \<noteq> None) ls)"
  unfolding current_ids_def using resolve_touch [OF assms] by simp

lemma set_foldl_create_link:
  "set (foldl (create_link cid) ls xs) = set ls \<union> Pair cid ` set xs"
  by (induction xs arbitrary: ls) (auto simp: create_link_def)

lemma distinct_foldl_create_link:
  "distinct ls \<Longrightarrow> distinct (foldl (create_link cid) ls xs)"
  by (induction xs arbitrary: ls) (auto simp: create_link_def)

lemma foldl_destroy_link:
  "foldl (destroy_link cid) ls xs = filter (\<lambda>l. l \<notin> Pair cid ` set xs) ls"
  by (induction xs arbitrary: ls) (auto simp: destroy_link_def intro: filter_cong)

lemma validate_additions_append:
  "validate_additions gate u st s (xs @ ys) =
     (case validate_additions gate u st s xs of
        Some e \<Rightarrow> Some e
      | None \<Rightarrow> validate_additions gate u st s ys)"
  by (induction xs) (auto split: option.splits)

lemma validate_additions_None_iff:
  "validate_additions gate u st s xs = None \<longleftrightarrow>
     (\<forall>x\<in>set xs. \<exists>t. resolve st s x = Some t \<and> can_read gate u t)"
  by (induction xs) (auto simp: validate_addition_def split: option.splits if_splits)

lemma to_add_not_Remove:
  "m \<noteq> Remove \<Longrightarrow> to_add m requested_ids cur = filter (\<lambda>x. x \<notin> set cur) requested_ids"
  by (cases m) simp_all

lemma count_list_distinct:
  "distinct xs \<Longrightarrow> x \<in> set xs \<Longrightarrow> count_list xs x = 1"
  by (induction xs) auto

lemma in_current_ids_iff:
  "x \<in> set (current_ids st s c) \<longleftrightarrow> (node_id c, x) \<in> set (links s) \<and> resolve st s x \<noteq> None"
  by (force simp: current_ids_def)

lemma to_remove_subset:
  "set (to_remove m requested_ids cur) \<subseteq> {x \<in> set cur. m = Remove \<or> x \<notin> set requested_ids}"
  by (cases m) auto

lemma reconcile_success:
  assumes "can_edit gate u c"
    and "validate_additions gate u st s (to_add m requested_ids (current_ids st s c)) = None"
  shows "reconcile gate u st m now c requested_ids s =
     (let ls = filter (\<lambda>l. l \<notin> Pair (node_id c) ` set (to_remove m requested_ids (current_ids st s c)))
                 (foldl (create_link (node_id c)) (links s)
                    (to_add m requested_ids (current_ids st s c)));
          s' = s\<lparr>entities := (entities s)(node_id c \<mapsto> c\<lparr>date_modified := now\<rparr>), links := ls\<rparr>
      in (Inr (success_status m, current_ids st s' c), s'))"
  using assms by (simp add: reconcile_def Let_def foldl_destroy_link)

lemma reconcile_error:
  assumes "can_edit gate u c"
    and "validate_additions gate u st s (to_add m requested_ids (current_ids st s c)) = Some e"
  shows "reconcile gate u st m now c requested_ids s = (Inl e, s)"
  using assms by (simp add: reconcile_def Let_def)

lemma current_ids_after_remove:
  assumes "entities s (node_id c) = Some c"
  shows "current_ids st
           (s\<lparr>entities := (entities s)(node_id c \<mapsto> c\<lparr>date_modified := now\<rparr>),
              links := filter (\<lambda>l. l \<notin> Pair (node_id c) `
                          set (filter (\<lambda>x. x \<in> set requested_ids) (current_ids st s c)))
                        (links s)\<rparr>) c
         = filter (\<lambda>x. x \<notin> set requested_ids) (current_ids st s c)"
  unfolding current_ids_touch [OF assms]
  by (auto simp: current_ids_def filter_map comp_def image_iff intro!: arg_cong [where f = "map snd"] filter_cong)

subsection \<open>The example stores evaluated\<close>

lemmas example_node_defs =
  example_collection_def example_other_collection_def example_project_def
  example_second_project_def example_registration_def example_deleted_project_def
  example_private_project_def

lemma example_can_edit: "can_edit example_gate (User ''u1'') example_collection"
  by (simp add: example_gate_def example_collection_def)

lemma example_resolve:
  "resolve NodePlain example_store ''A'' = Some example_project"
  "resolve NodePlain example_store ''B'' = Some example_second_project"
  "resolve NodePlain example_store ''P'' = Some example_private_project"
  "resolve NodePlain example_store ''X'' = None"
  by (simp_all add: resolve_def example_store_def example_nodes_def example_node_defs)

lemma example_current_ids:
  "current_ids NodePlain example_store example_collection = [''A'']"
  by (simp add: current_ids_def resolve_def example_store_def example_nodes_def
        example_node_defs)

lemma example_registration_scope:
  "current_ids NodeRegistration example_store example_collection = []"
  "resolve NodeRegistration example_store ''P'' = None"
  by (simp_all add: current_ids_def resolve_def example_store_def example_nodes_def
        example_node_defs)

lemma example_can_read:
  "can_read example_gate (User ''u1'') example_project"
  "can_read example_gate (User ''u1'') example_second_project"
  "\<not> can_read example_gate (User ''u1'') example_private_project"
  by (simp_all add: example_gate_def example_node_defs)

lemma example_mixed_current_ids:
  "current_ids NodePlain example_mixed_store example_collection = [''A'']"
  by (simp add: current_ids_def resolve_def example_mixed_store_def example_nodes_def
        example_node_defs)

lemma example_entities:
  "entities example_store (node_id example_collection) = Some example_collection"
  "entities example_full_store (node_id example_collection) = Some example_collection"
  "entities example_mixed_store (node_id example_collection) = Some example_collection"
  by (simp_all add: example_store_def example_full_store_def example_mixed_store_def
        example_nodes_def example_collection_def)

lemma example_can_edit_touched:
  "can_edit example_gate (User ''u1'') (example_collection\<lparr>date_modified := t\<rparr>)"
  by (simp add: example_gate_def example_collection_def)

lemma example_replace_empty:
  "reconcile example_gate (User ''u1'') NodePlain Replace 7 example_collection []
     example_mixed_store
     = (Inr (200, []),
        example_mixed_store
          \<lparr>entities := (entities example_mixed_store)
                          (''c1'' \<mapsto> example_collection\<lparr>date_modified := 7\<rparr>),
           links := [(''c1'', ''R'')]\<rparr>)"
  by (simp add: reconcile_def Let_def example_can_edit example_mixed_current_ids
        destroy_link_def)
     (simp add: current_ids_def resolve_def example_mixed_store_def example_nodes_def
        example_node_defs)

lemma example_full_current_ids:
  "current_ids NodePlain example_full_store example_collection = [''A'', ''B'']"
  by (simp add: current_ids_def resolve_def example_full_store_def example_nodes_def
        example_node_defs)

lemma example_create_duplicates:
  "reconcile example_gate (User ''u1'') NodePlain CreateOnly 7 example_collection
     [''B'', ''A'', ''B''] example_store
     = (Inr (201, [''A'', ''B'']),
        example_store
          \<lparr>entities := (entities example_store)
                          (''c1'' \<mapsto> example_collection\<lparr>date_modified := 7\<rparr>),
           links := [(''c1'', ''A''), (''c1'', ''B'')]\<rparr>)"
  by (simp add: reconcile_def Let_def example_can_edit example_current_ids
        validate_addition_def example_resolve example_can_read create_link_def)
     (simp add: current_ids_def resolve_def example_store_def example_nodes_def
        example_node_defs)

lemma example_remove_absent:
  "reconcile example_gate (User ''u1'') NodePlain Remove 7 example_collection
     [''B''] example_store
     = (Inr (204, [''A'']),
        example_store
          \<lparr>entities := (entities example_store)
                          (''c1'' \<mapsto> example_collection\<lparr>date_modified := 7\<rparr>)\<rparr>)"
  by (simp add: reconcile_def Let_def example_can_edit example_current_ids)
     (simp add: current_ids_def resolve_def example_store_def example_nodes_def
        example_node_defs)

lemma example_remove_linked:
  "reconcile example_gate (User ''u1'') NodePlain Remove 7 example_collection
     [''A'', ''B''] example_store
     = (Inr (204, []),
        example_store
          \<lparr>entities := (entities example_store)
                          (''c1'' \<mapsto> example_collection\<lparr>date_modified := 7\<rparr>),
           links := []\<rparr>)"
  by (simp add: reconcile_def Let_def example_can_edit example_current_ids destroy_link_def)
     (simp add: current_ids_def example_store_def example_collection_def)


text \<open>
  C1. In create-only or replace mode, with edit permission on the collection: let
  \<open>x\<close> be an identifier of the request that is not currently linked, and let every
  identifier before it in the request be either currently linked or a resolvable target
  the requester can read. If \<open>x\<close> does not resolve to a live entity of the expected
  subtype the outcome is \<open>NotFound\<close>, whether or not the requester could read it;
  if it resolves and the requester cannot read it the outcome is \<open>PermissionDenied\<close>
  (Forbidden). In both cases the store is returned as it was: no link is created, not
  even for the valid identifiers before \<open>x\<close>.
\<close>

theorem additions_all_or_nothing:
  assumes "m = CreateOnly \<or> m = Replace"
    and "can_edit gate u c"
    and "requested_ids = pre @ x # post"
    and "x \<notin> set (current_ids st s c)"
    and "\<forall>y\<in>set pre. y \<in> set (current_ids st s c)
            \<or> (\<exists>t. resolve st s y = Some t \<and> can_read gate u t)"
    and "resolve st s x = None \<or> (\<exists>t. resolve st s x = Some t \<and> \<not> can_read gate u t)"
  shows "reconcile gate u st m now c requested_ids s
           = (Inl (if resolve st s x = None then NotFound else PermissionDenied), s)"
proof -
  let ?cur = "current_ids st s c"
  have m: "m \<noteq> Remove" using assms(1) by auto
  have add: "to_add m requested_ids ?cur
               = filter (\<lambda>y. y \<notin> set ?cur) pre @ x # filter (\<lambda>y. y \<notin> set ?cur) post"
    using assms(3,4) by (simp add: to_add_not_Remove [OF m])
  have pre: "validate_additions gate u st s (filter (\<lambda>y. y \<notin> set ?cur) pre) = None"
    using assms(5) by (auto simp: validate_additions_None_iff)
  have x: "validate_addition gate u st s x
             = Some (if resolve st s x = None then NotFound else PermissionDenied)"
    using assms(6) by (auto simp: validate_addition_def)
  have "validate_additions gate u st s (to_add m requested_ids ?cur)
          = Some (if resolve st s x = None then NotFound else PermissionDenied)"
    unfolding add validate_additions_append pre by (simp add: x)
  then show ?thesis
    using assms(2) by (simp add: reconcile_def Let_def)
qed

theorem additions_all_or_nothing_witness:
  "current_ids NodePlain example_store example_collection = [''A'']
   \<and> resolve NodePlain example_store ''X'' = None
   \<and> reconcile example_gate (User ''u1'') NodePlain Replace 7 example_collection
        [''A'', ''B'', ''X''] example_store = (Inl NotFound, example_store)
   \<and> links example_store = [(''c1'', ''A'')]
   \<and> reconcile example_gate (User ''u1'') NodePlain CreateOnly 7 example_collection
        [''B'', ''P'', ''X''] example_store = (Inl PermissionDenied, example_store)
   \<and> reconcile example_gate (User ''u1'') NodePlain CreateOnly 7 example_collection
        [''B'', ''X'', ''P''] example_store = (Inl NotFound, example_store)
   \<and> \<not> can_read example_gate (User ''u1'') example_private_project
   \<and> reconcile example_gate (User ''u1'') NodeRegistration Replace 7 example_collection
        [''P''] example_store = (Inl NotFound, example_store)"
  using additions_all_or_nothing
          [where m = Replace and gate = example_gate and u = "User ''u1''"
             and c = example_collection and requested_ids = "[''A'', ''B'', ''X'']"
             and pre = "[''A'', ''B'']" and x = "''X''" and post = "[]"
             and st = NodePlain and s = example_store and now = 7]
        additions_all_or_nothing
          [where m = CreateOnly and gate = example_gate and u = "User ''u1''"
             and c = example_collection and requested_ids = "[''B'', ''P'', ''X'']"
             and pre = "[''B'']" and x = "''P''" and post = "[''X'']"
             and st = NodePlain and s = example_store and now = 7]
        additions_all_or_nothing
          [where m = CreateOnly and gate = example_gate and u = "User ''u1''"
             and c = example_collection and requested_ids = "[''B'', ''X'', ''P'']"
             and pre = "[''B'']" and x = "''X''" and post = "[''P'']"
             and st = NodePlain and s = example_store and now = 7]
        additions_all_or_nothing
          [where m = Replace and gate = example_gate and u = "User ''u1''"
             and c = example_collection and requested_ids = "[''P'']"
             and pre = "[]" and x = "''P''" and post = "[]"
             and st = NodeRegistration and s = example_store and now = 7]
  by (simp add: example_can_edit example_resolve example_current_ids example_can_read
        example_registration_scope)
     (simp add: example_store_def)

lemma links_after_replace_empty:
  "filter (\<lambda>l. l \<notin> Pair (node_id c) ` set (current_ids st s c)) (links s)
     = filter (\<lambda>l. \<not> (fst l = node_id c \<and> resolve st s (snd l) \<noteq> None)) (links s)"
  by (rule filter_cong) (auto simp: in_current_ids_iff image_iff)

text \<open>
  C3. The reconciler works on the current set of the endpoint (step 1: the live
  targets of the endpoint's subtype), so a clear does not remove the links of the
  collection to soft-deleted targets or to targets of the other subtype. With edit
  permission on the collection (the stored row of its identifier), a replace with the
  empty list succeeds with status 200 and the empty set; afterwards the current set of the endpoint is empty, no link remains for
  any identifier that was in it, the links that remain are exactly the links that were
  outside that current set, and the collection carries the new modification timestamp.
  More generally, in any mode, when there is nothing to add and nothing to remove the
  operation still succeeds and still writes the collection with the new timestamp.
\<close>

theorem replace_empty_clears_scoped:
  assumes "can_edit gate u c" and "entities s (node_id c) = Some c"
  shows "fst (reconcile gate u st Replace now c [] s) = Inr (200, [])
   \<and> current_ids st (snd (reconcile gate u st Replace now c [] s)) c = []
   \<and> (\<forall>x\<in>set (current_ids st s c).
         (node_id c, x) \<notin> set (links (snd (reconcile gate u st Replace now c [] s))))
   \<and> links (snd (reconcile gate u st Replace now c [] s))
       = filter (\<lambda>l. \<not> (fst l = node_id c \<and> resolve st s (snd l) \<noteq> None)) (links s)
   \<and> entities (snd (reconcile gate u st Replace now c [] s)) (node_id c)
       = Some (c\<lparr>date_modified := now\<rparr>)
   \<and> (to_add m requested_ids (current_ids st s c) = []
        \<and> to_remove m requested_ids (current_ids st s c) = [] \<longrightarrow>
        reconcile gate u st m now c requested_ids s
          = (Inr (success_status m, current_ids st s c),
             s\<lparr>entities := (entities s)(node_id c \<mapsto> c\<lparr>date_modified := now\<rparr>)\<rparr>))"
proof -
  let ?cur = "current_ids st s c"
  let ?ls = "filter (\<lambda>l. l \<notin> Pair (node_id c) ` set ?cur) (links s)"
  let ?s' = "s\<lparr>entities := (entities s)(node_id c \<mapsto> c\<lparr>date_modified := now\<rparr>), links := ?ls\<rparr>"
  have cur': "current_ids st ?s' c = []"
    unfolding current_ids_touch [OF assms(2)]
    by (auto simp: filter_empty_conv current_ids_def image_iff)
  have r: "reconcile gate u st Replace now c [] s = (Inr (200, []), ?s')"
    using assms(1) cur' by (simp add: reconcile_def Let_def foldl_destroy_link)
  have gone: "\<forall>x\<in>set ?cur. (node_id c, x) \<notin> set (links ?s')"
    by auto
  have rest: "links ?s' = filter (\<lambda>l. \<not> (fst l = node_id c \<and> resolve st s (snd l) \<noteq> None)) (links s)"
    by (simp add: links_after_replace_empty)
  have stamp: "entities ?s' (node_id c) = Some (c\<lparr>date_modified := now\<rparr>)"
    by simp
  have keep: "s\<lparr>entities := (entities s)(node_id c \<mapsto> c\<lparr>date_modified := now\<rparr>),
                 links := links s\<rparr>
              = s\<lparr>entities := (entities s)(node_id c \<mapsto> c\<lparr>date_modified := now\<rparr>)\<rparr>"
    by simp
  have same: "current_ids st (s\<lparr>entities := (entities s)(node_id c \<mapsto> c\<lparr>date_modified := now\<rparr>),
                 links := links s\<rparr>) c = ?cur"
    unfolding current_ids_touch [OF assms(2)] by (simp add: current_ids_def)
  have e: "to_add m requested_ids ?cur = [] \<and> to_remove m requested_ids ?cur = [] \<longrightarrow>
        reconcile gate u st m now c requested_ids s
          = (Inr (success_status m, ?cur),
             s\<lparr>entities := (entities s)(node_id c \<mapsto> c\<lparr>date_modified := now\<rparr>)\<rparr>)"
    using assms(1) same keep by (simp add: reconcile_def Let_def)
  show ?thesis
    unfolding r fst_conv snd_conv by (intro conjI refl cur' gone rest stamp e)
qed

theorem replace_empty_clears_scoped_witness:
  "can_edit example_gate (User ''u1'') example_collection
   \<and> entities example_mixed_store (node_id example_collection) = Some example_collection
   \<and> current_ids NodePlain example_mixed_store example_collection = [''A'']
   \<and> fst (reconcile example_gate (User ''u1'') NodePlain Replace 7 example_collection []
             example_mixed_store) = Inr (200, [])
   \<and> (''c1'', ''A'') \<notin> set (links (snd (reconcile example_gate (User ''u1'') NodePlain
             Replace 7 example_collection [] example_mixed_store)))
   \<and> entities (snd (reconcile example_gate (User ''u1'') NodePlain Replace 7
             example_collection [] example_mixed_store)) (node_id example_collection)
       = Some (example_collection\<lparr>date_modified := 7\<rparr>)
   \<and> to_add Replace [''A''] [''A''] = [] \<and> to_remove Replace [''A''] [''A''] = []
   \<and> reconcile example_gate (User ''u1'') NodePlain Replace 7 example_collection [''A'']
        example_store
       = (Inr (200, [''A'']),
          example_store\<lparr>entities := (entities example_store)
              (node_id example_collection \<mapsto> example_collection\<lparr>date_modified := 7\<rparr>)\<rparr>)"
proof -
  note mixed = replace_empty_clears_scoped
          [OF example_can_edit example_entities(3), where st = NodePlain and now = 7
             and m = Replace and requested_ids = "[''A'']"]
  note plain = replace_empty_clears_scoped
          [OF example_can_edit example_entities(1), where st = NodePlain and now = 7
             and m = Replace and requested_ids = "[''A'']"]
  have a: "fst (reconcile example_gate (User ''u1'') NodePlain Replace 7 example_collection []
             example_mixed_store) = Inr (200, [])"
    using mixed by (rule conjunct1)
  have b: "\<forall>x\<in>set (current_ids NodePlain example_mixed_store example_collection).
         (node_id example_collection, x) \<notin> set (links (snd (reconcile example_gate
            (User ''u1'') NodePlain Replace 7 example_collection [] example_mixed_store)))"
    using mixed by (elim conjE)
  have c: "entities (snd (reconcile example_gate (User ''u1'') NodePlain Replace 7
             example_collection [] example_mixed_store)) (node_id example_collection)
       = Some (example_collection\<lparr>date_modified := 7\<rparr>)"
    using mixed by (elim conjE)
  have d: "to_add Replace [''A''] (current_ids NodePlain example_store example_collection) = []
        \<and> to_remove Replace [''A''] (current_ids NodePlain example_store example_collection) = []
        \<longrightarrow>
        reconcile example_gate (User ''u1'') NodePlain Replace 7 example_collection [''A'']
          example_store
          = (Inr (success_status Replace, current_ids NodePlain example_store example_collection),
             example_store\<lparr>entities := (entities example_store)
               (node_id example_collection \<mapsto> example_collection\<lparr>date_modified := 7\<rparr>)\<rparr>)"
    using plain by (elim conjE)
  have ni: "node_id example_collection = ''c1''"
    by (simp add: example_collection_def)
  have b': "(''c1'', ''A'') \<notin> set (links (snd (reconcile example_gate (User ''u1'') NodePlain
             Replace 7 example_collection [] example_mixed_store)))"
    using b by (simp add: example_mixed_current_ids ni)
  have d': "reconcile example_gate (User ''u1'') NodePlain Replace 7 example_collection [''A'']
        example_store
       = (Inr (200, [''A'']),
          example_store\<lparr>entities := (entities example_store)
              (node_id example_collection \<mapsto> example_collection\<lparr>date_modified := 7\<rparr>)\<rparr>)"
    using d by (simp add: example_current_ids)
  show ?thesis
    using a b' c d' example_can_edit example_entities(3) example_mixed_current_ids
    by simp
qed

text \<open>
  A collection that links a project and a registration, cleared through the node
  endpoint: the replace with the empty list succeeds with 200 and the empty set, and the
  link to the registration is still in the store, so the collection's link set is not
  empty.
\<close>

theorem replace_empty_keeps_out_of_scope_link:
  "can_edit example_gate (User ''u1'') example_collection
   \<and> links example_mixed_store = [(''c1'', ''A''), (''c1'', ''R'')]
   \<and> entities example_mixed_store ''R'' = Some example_registration
   \<and> fst (reconcile example_gate (User ''u1'') NodePlain Replace 7 example_collection []
             example_mixed_store) = Inr (200, [])
   \<and> links (snd (reconcile example_gate (User ''u1'') NodePlain Replace 7 example_collection []
             example_mixed_store)) = [(''c1'', ''R'')]
   \<and> links (snd (reconcile example_gate (User ''u1'') NodePlain Replace 7 example_collection []
             example_mixed_store)) \<noteq> []"
  by (simp add: example_can_edit example_replace_empty)
     (simp add: example_mixed_store_def example_nodes_def)

text \<open>
  C4. With edit permission on the collection (the stored row of its identifier): a
  replace whose requested identifiers,
  as a set, are the currently linked ones returns 200 with the current set and leaves
  the links as they were, whatever the order and multiplicity of the request. And when
  a create-only or replace request succeeds on a store without duplicate links, every
  requested identifier has exactly one link from the collection afterwards.
\<close>

theorem replace_same_set_and_duplicates:
  assumes "can_edit gate u c" and "entities s (node_id c) = Some c"
  shows "(set requested_ids = set (current_ids st s c) \<longrightarrow>
            fst (reconcile gate u st Replace now c requested_ids s)
              = Inr (200, current_ids st s c)
            \<and> links (snd (reconcile gate u st Replace now c requested_ids s)) = links s)
   \<and> ((m = CreateOnly \<or> m = Replace) \<and> distinct (links s)
        \<and> (\<exists>r. fst (reconcile gate u st m now c requested_ids s) = Inr r) \<longrightarrow>
        (\<forall>x\<in>set requested_ids.
           count_list (links (snd (reconcile gate u st m now c requested_ids s))) (node_id c, x) = 1))"
proof (intro conjI impI)
  let ?cur = "current_ids st s c"
  assume eq: "set requested_ids = set ?cur"
  have a: "to_add Replace requested_ids ?cur = []" and r: "to_remove Replace requested_ids ?cur = []"
    using eq by (simp_all add: filter_empty_conv)
  have same: "current_ids st (s\<lparr>entities := (entities s)(node_id c \<mapsto> c\<lparr>date_modified := now\<rparr>),
                 links := links s\<rparr>) c = ?cur"
    unfolding current_ids_touch [OF assms(2)] by (simp add: current_ids_def)
  show "fst (reconcile gate u st Replace now c requested_ids s) = Inr (200, ?cur)"
    using assms(1) a r same by (simp add: reconcile_success Let_def)
  show "links (snd (reconcile gate u st Replace now c requested_ids s)) = links s"
    using assms(1) a r by (simp add: reconcile_success Let_def)
next
  let ?cur = "current_ids st s c"
  let ?add = "to_add m requested_ids ?cur"
  let ?rem = "to_remove m requested_ids ?cur"
  let ?ls1 = "foldl (create_link (node_id c)) (links s) ?add"
  let ?ls2 = "filter (\<lambda>l. l \<notin> Pair (node_id c) ` set ?rem) ?ls1"
  assume h: "(m = CreateOnly \<or> m = Replace) \<and> distinct (links s)
        \<and> (\<exists>r. fst (reconcile gate u st m now c requested_ids s) = Inr r)"
  then have m: "m \<noteq> Remove" and d: "distinct (links s)" by auto
  have v: "validate_additions gate u st s ?add = None"
  proof (cases "validate_additions gate u st s ?add")
    case None then show ?thesis .
  next
    case (Some e)
    from reconcile_error [OF assms(1) Some] h show ?thesis by simp
  qed
  have l: "links (snd (reconcile gate u st m now c requested_ids s)) = ?ls2"
    by (simp add: reconcile_success [OF assms(1) v] Let_def)
  have dist: "distinct ?ls2"
    using d by (simp add: distinct_foldl_create_link)
  show "\<forall>x\<in>set requested_ids.
           count_list (links (snd (reconcile gate u st m now c requested_ids s))) (node_id c, x) = 1"
  proof
    fix x assume x: "x \<in> set requested_ids"
    have in1: "(node_id c, x) \<in> set ?ls1"
    proof (cases "x \<in> set ?cur")
      case True
      then show ?thesis by (simp add: set_foldl_create_link in_current_ids_iff)
    next
      case False
      with x m show ?thesis by (simp add: set_foldl_create_link to_add_not_Remove)
    qed
    have "x \<notin> set ?rem"
      using to_remove_subset [of m requested_ids ?cur] x m by auto
    then have "(node_id c, x) \<in> set ?ls2"
      using in1 by auto
    then show "count_list (links (snd (reconcile gate u st m now c requested_ids s))) (node_id c, x) = 1"
      unfolding l using dist by (rule count_list_distinct [rotated])
  qed
qed

theorem replace_same_set_and_duplicates_witness:
  "can_edit example_gate (User ''u1'') example_collection
   \<and> entities example_full_store (node_id example_collection) = Some example_collection
   \<and> set [''B'', ''A'', ''B''] = set (current_ids NodePlain example_full_store example_collection)
   \<and> fst (reconcile example_gate (User ''u1'') NodePlain Replace 7 example_collection
             [''B'', ''A'', ''B''] example_full_store) = Inr (200, [''A'', ''B''])
   \<and> links (snd (reconcile example_gate (User ''u1'') NodePlain Replace 7 example_collection
             [''B'', ''A'', ''B''] example_full_store)) = [(''c1'', ''A''), (''c1'', ''B'')]
   \<and> distinct (links example_store)
   \<and> fst (reconcile example_gate (User ''u1'') NodePlain CreateOnly 7 example_collection
             [''B'', ''A'', ''B''] example_store) = Inr (201, [''A'', ''B''])
   \<and> links (snd (reconcile example_gate (User ''u1'') NodePlain CreateOnly 7 example_collection
             [''B'', ''A'', ''B''] example_store)) = [(''c1'', ''A''), (''c1'', ''B'')]
   \<and> count_list (links (snd (reconcile example_gate (User ''u1'') NodePlain CreateOnly 7
             example_collection [''B'', ''A'', ''B''] example_store))) (''c1'', ''B'') = 1"
  using replace_same_set_and_duplicates
          [OF example_can_edit example_entities(2), where st = NodePlain and now = 7
             and requested_ids = "[''B'', ''A'', ''B'']" and m = Replace]
        replace_same_set_and_duplicates
          [OF example_can_edit example_entities(1), where st = NodePlain and now = 7
             and requested_ids = "[''B'', ''A'', ''B'']" and m = CreateOnly]
  by (simp add: example_can_edit example_entities example_full_current_ids
        example_create_duplicates insert_commute)
     (simp add: example_full_store_def example_store_def)

text \<open>
  C5. With edit permission on the collection (the stored row of its identifier), a
  remove request always succeeds with
  status 204 and returns the current set without the requested identifiers. When none
  of the requested identifiers is currently linked, the links are left as they were and
  the current set is returned unchanged. Repeating the same remove request changes no
  link a second time, and destroying a link that is absent leaves the links as they
  are.
\<close>

theorem remove_absent_is_noop:
  assumes "can_edit gate u c" and "entities s (node_id c) = Some c"
  shows "fst (reconcile gate u st Remove now c requested_ids s)
           = Inr (204, filter (\<lambda>x. x \<notin> set requested_ids) (current_ids st s c))
   \<and> (set requested_ids \<inter> set (current_ids st s c) = {} \<longrightarrow>
        fst (reconcile gate u st Remove now c requested_ids s) = Inr (204, current_ids st s c)
        \<and> links (snd (reconcile gate u st Remove now c requested_ids s)) = links s)
   \<and> (can_edit gate u (c\<lparr>date_modified := now\<rparr>) \<longrightarrow>
        links (snd (reconcile gate u st Remove now' (c\<lparr>date_modified := now\<rparr>) requested_ids
                      (snd (reconcile gate u st Remove now c requested_ids s))))
          = links (snd (reconcile gate u st Remove now c requested_ids s)))
   \<and> ((node_id c, x) \<notin> set ls \<longrightarrow> destroy_link (node_id c) ls x = ls)"
proof -
  let ?cur = "current_ids st s c"
  let ?ls = "filter (\<lambda>l. l \<notin> Pair (node_id c) ` set (filter (\<lambda>x. x \<in> set requested_ids) ?cur)) (links s)"
  let ?s' = "s\<lparr>entities := (entities s)(node_id c \<mapsto> c\<lparr>date_modified := now\<rparr>), links := ?ls\<rparr>"
  have noop: "set requested_ids \<inter> set (current_ids st s0 c0) = {} \<Longrightarrow> can_edit gate u c0 \<Longrightarrow>
      links (snd (reconcile gate u st Remove t c0 requested_ids s0)) = links s0" for s0 c0 t
  proof -
    assume "set requested_ids \<inter> set (current_ids st s0 c0) = {}" and e: "can_edit gate u c0"
    then have "filter (\<lambda>x. x \<in> set requested_ids) (current_ids st s0 c0) = []"
      by (auto simp: filter_empty_conv)
    then show ?thesis using e by (simp add: reconcile_success Let_def)
  qed
  have r: "reconcile gate u st Remove now c requested_ids s
             = (Inr (204, filter (\<lambda>x. x \<notin> set requested_ids) ?cur), ?s')"
    using assms(1) current_ids_after_remove [OF assms(2), where st = st and now = now and requested_ids = requested_ids]
    by (simp add: reconcile_success Let_def)
  have A: "fst (reconcile gate u st Remove now c requested_ids s)
           = Inr (204, filter (\<lambda>x. x \<notin> set requested_ids) ?cur)"
    by (simp add: r)
  have B: "set requested_ids \<inter> set ?cur = {} \<longrightarrow>
        fst (reconcile gate u st Remove now c requested_ids s) = Inr (204, ?cur)
        \<and> links (snd (reconcile gate u st Remove now c requested_ids s)) = links s"
  proof
    assume d: "set requested_ids \<inter> set ?cur = {}"
    then have "filter (\<lambda>x. x \<notin> set requested_ids) ?cur = ?cur"
      by (auto simp: filter_id_conv)
    with A noop [OF d assms(1)] 
    show "fst (reconcile gate u st Remove now c requested_ids s) = Inr (204, ?cur)
        \<and> links (snd (reconcile gate u st Remove now c requested_ids s)) = links s"
      by simp
  qed
  have cur': "current_ids st ?s' (c\<lparr>date_modified := now\<rparr>)
                = filter (\<lambda>x. x \<notin> set requested_ids) ?cur"
    using current_ids_after_remove [OF assms(2), where st = st and now = now and requested_ids = requested_ids]
    by (simp add: current_ids_def)
  have C: "can_edit gate u (c\<lparr>date_modified := now\<rparr>) \<longrightarrow>
        links (snd (reconcile gate u st Remove now' (c\<lparr>date_modified := now\<rparr>) requested_ids
                      (snd (reconcile gate u st Remove now c requested_ids s))))
          = links (snd (reconcile gate u st Remove now c requested_ids s))"
  proof
    assume e: "can_edit gate u (c\<lparr>date_modified := now\<rparr>)"
    have "set requested_ids \<inter> set (current_ids st ?s' (c\<lparr>date_modified := now\<rparr>)) = {}"
      unfolding cur' by auto
    from noop [OF this e] show "links (snd (reconcile gate u st Remove now' (c\<lparr>date_modified := now\<rparr>) requested_ids
                      (snd (reconcile gate u st Remove now c requested_ids s))))
          = links (snd (reconcile gate u st Remove now c requested_ids s))"
      by (simp add: r)
  qed
  have D: "(node_id c, x) \<notin> set ls \<longrightarrow> destroy_link (node_id c) ls x = ls"
    by (auto simp: destroy_link_def filter_id_conv)
  show ?thesis using A B C D by blast
qed

theorem remove_absent_is_noop_witness:
  "can_edit example_gate (User ''u1'') example_collection
   \<and> entities example_store (node_id example_collection) = Some example_collection
   \<and> set [''B''] \<inter> set (current_ids NodePlain example_store example_collection) = {}
   \<and> fst (reconcile example_gate (User ''u1'') NodePlain Remove 7 example_collection [''B'']
             example_store) = Inr (204, [''A''])
   \<and> links (snd (reconcile example_gate (User ''u1'') NodePlain Remove 7 example_collection
             [''B''] example_store)) = links example_store
   \<and> can_edit example_gate (User ''u1'') (example_collection\<lparr>date_modified := 7\<rparr>)
   \<and> links (snd (reconcile example_gate (User ''u1'') NodePlain Remove 8
                    (example_collection\<lparr>date_modified := 7\<rparr>) [''A'', ''B'']
                    (snd (reconcile example_gate (User ''u1'') NodePlain Remove 7
                            example_collection [''A'', ''B''] example_store)))) = []
   \<and> (node_id example_collection, ''B'') \<notin> set (links example_store)
   \<and> destroy_link (node_id example_collection) (links example_store) ''B''
       = links example_store"
  using remove_absent_is_noop
          [OF example_can_edit example_entities(1), where st = NodePlain and now = 7
             and requested_ids = "[''B'']" and now' = 8 and x = "''B''"
             and ls = "links example_store"]
        remove_absent_is_noop
          [OF example_can_edit example_entities(1), where st = NodePlain and now = 7
             and requested_ids = "[''A'', ''B'']" and now' = 8 and x = "''B''"
             and ls = "links example_store"]
  by (simp add: example_can_edit example_can_edit_touched example_entities
        example_current_ids example_remove_absent example_remove_linked)
     (simp add: example_store_def example_collection_def)

end
